theory Spec2Isabelle
  imports Complex_Main
begin

section \<open>Numbers, rounding and strings of the page\<close>

text \<open>
  The time-blocking page (\<^verbatim>\<open>src/pages/TimeBlocking.tsx\<close>) computes on JavaScript numbers.
  They are modelled as reals: every value is finite and arithmetic is exact, so \<^verbatim>\<open>NaN\<close>,
  the infinities and binary rounding error are outside the model. A division by zero would
  give \<^verbatim>\<open>NaN\<close> or an infinity in the source, so every statement below that divides by a
  variable interval assumes the interval is positive.

  \<^verbatim>\<open>Math.floor\<close> rounds towards minus infinity, \<^verbatim>\<open>x % 1\<close> keeps the sign of \<^verbatim>\<open>x\<close> (it
  subtracts the integer part obtained by truncation towards zero), and \<^verbatim>\<open>Math.round\<close>
  returns the nearest integer, the larger one when two are equally near.
\<close>

definition math_floor :: "real \<Rightarrow> int" where
  "math_floor x = \<lfloor>x\<rfloor>"

definition math_trunc :: "real \<Rightarrow> int" where
  "math_trunc x = (if 0 \<le> x then \<lfloor>x\<rfloor> else - \<lfloor>- x\<rfloor>)"

definition rem1 :: "real \<Rightarrow> real" where
  \<comment> \<open>\<^verbatim>\<open>x % 1\<close>\<close>
  "rem1 x = x - of_int (math_trunc x)"

definition math_round :: "real \<Rightarrow> int" where
  "math_round x = (if x - of_int \<lfloor>x\<rfloor> < 1 / 2 then \<lfloor>x\<rfloor> else \<lfloor>x\<rfloor> + 1)"

definition HOUR_HEIGHT :: real where
  "HOUR_HEIGHT = 80"

definition SNAP_INTERVAL :: real where
  "SNAP_INTERVAL = 15"

text \<open>
  \<^verbatim>\<open>const snapToInterval = (time, interval) => {
    const minutes = (time % 1) * 60;
    const snappedMinutes = Math.round(minutes / interval) * interval;
    return Math.floor(time) + snappedMinutes / 60; }\<close>
\<close>

definition snapToInterval :: "real \<Rightarrow> real \<Rightarrow> real" where
  "snapToInterval time interval =
     (let minutes = rem1 time * 60;
          snappedMinutes = of_int (math_round (minutes / interval)) * interval
      in of_int (math_floor time) + snappedMinutes / 60)"

text \<open>
  \<^verbatim>\<open>Number.prototype.toString\<close> on an integer prints its decimal digits, with a minus sign
  when it is negative; \<^verbatim>\<open>padStart(n, '0')\<close> prepends zeros up to length \<^verbatim>\<open>n\<close> and leaves a
  string that is already long enough as it is.
\<close>

definition digit_char :: "nat \<Rightarrow> char" where
  "digit_char d = ''0123456789'' ! d"

fun toString_nat :: "nat \<Rightarrow> string" where
  "toString_nat n =
     (if n < 10 then [digit_char n] else toString_nat (n div 10) @ [digit_char (n mod 10)])"

declare toString_nat.simps [simp del]

definition toString :: "int \<Rightarrow> string" where
  "toString i = (if i < 0 then CHR ''-'' # toString_nat (nat (- i)) else toString_nat (nat i))"

definition padStart :: "string \<Rightarrow> nat \<Rightarrow> char \<Rightarrow> string" where
  "padStart s targetLength c = replicate (targetLength - length s) c @ s"

text \<open>
  \<^verbatim>\<open>const formatTime = (hour) => {
    const h = Math.floor(hour);
    const m = Math.round((hour % 1) * 60);
    return `${h.toString().padStart(2, '0')}:${m.toString().padStart(2, '0')}`; }\<close>
\<close>

definition formatTime :: "real \<Rightarrow> string" where
  "formatTime hour =
     (let h = math_floor hour;
          m = math_round (rem1 hour * 60)
      in padStart (toString h) 2 CHR ''0'' @ '':'' @ padStart (toString m) 2 CHR ''0'')"


section \<open>Data model\<close>

text \<open>
  A task of the pool and a block of the schedule. The field \<^verbatim>\<open>id\<close> of the source is
  \<open>task_id\<close> for a task and \<open>block_id\<close> for a block. The blocks served by the backend carry
  three more strings, which no handler reads; the functions below take any extension of
  the five-field block.
\<close>

record Task =
  task_id :: string
  title :: string
  duration :: real
  color :: string

record TimeBlock =
  block_id :: string
  task :: Task
  startHour :: real
  endHour :: real
  completed :: bool

record ApiTimeBlock = TimeBlock +
  blockDate :: string
  createdAt :: string
  updatedAt :: string

text \<open>
  The state of the component that the handlers read and write: the pool \<open>tasks\<close>, the
  placed \<open>timeBlocks\<close>, the points \<open>xp\<close>, the error banner and the two animation flags.
\<close>

record 'b PageState =
  tasks :: "Task list"
  timeBlocks :: "'b list"
  xp :: real
  error :: "string option"
  showDoneCheck :: bool
  showPerfectDay :: bool

text \<open>
  The outcome of an awaited call to the persistence service: the promise resolves with a
  value or rejects with an error message. The service is outside the page, so the outcome
  is a parameter of each handler. A handler is modelled as one transition from the state
  it starts in; two handlers interleaving at an \<^verbatim>\<open>await\<close> are not modelled.
\<close>

datatype 'a promise = Resolved 'a | Rejected string

text \<open>The scrollable schedule: the top of its bounding rectangle and its scroll offset.\<close>

record Container =
  rect_top :: real
  scrollTop :: real


section \<open>Derived values\<close>

text \<open>
  \<^verbatim>\<open>const totalBlocks = timeBlocks.length;
  const completedBlocks = timeBlocks.filter(b => b.completed).length;
  const progressPercentage = totalBlocks > 0 ? (completedBlocks / totalBlocks) * 100 : 0;
  const isPerfectDay = totalBlocks > 0 && completedBlocks === totalBlocks;\<close>
\<close>

definition totalBlocks :: "'a TimeBlock_scheme list \<Rightarrow> nat" where
  "totalBlocks tbs = length tbs"

definition completedBlocks :: "'a TimeBlock_scheme list \<Rightarrow> nat" where
  "completedBlocks tbs = length (filter completed tbs)"

definition progressPercentage :: "'a TimeBlock_scheme list \<Rightarrow> real" where
  "progressPercentage tbs =
     (if totalBlocks tbs > 0 then (real (completedBlocks tbs) / real (totalBlocks tbs)) * 100
      else 0)"

definition isPerfectDay :: "'a TimeBlock_scheme list \<Rightarrow> bool" where
  "isPerfectDay tbs = (totalBlocks tbs > 0 \<and> completedBlocks tbs = totalBlocks tbs)"


section \<open>Conflict detection and drop position\<close>

text \<open>
  An optional string argument is \<open>None\<close> when it is left out. In a condition JavaScript
  takes a string as true when it is not empty.
\<close>

definition truthy :: "string option \<Rightarrow> bool" where
  "truthy v = (case v of None \<Rightarrow> False | Some str \<Rightarrow> str \<noteq> [])"

text \<open>
  \<^verbatim>\<open>const hasConflict = (startHour, endHour, excludeId?) =>
    timeBlocks.some(block => {
      if (excludeId && block.id === excludeId) return false;
      return startHour < block.endHour && endHour > block.startHour; });\<close>
\<close>

definition hasConflict ::
    "'a TimeBlock_scheme list \<Rightarrow> real \<Rightarrow> real \<Rightarrow> string option \<Rightarrow> bool" where
  "hasConflict tbs startHour' endHour' excludeId =
     list_ex
       (\<lambda>block.
          if truthy excludeId \<and> Some (block_id block) = excludeId then False
          else startHour' < endHour block \<and> endHour' > startHour block)
       tbs"

text \<open>
  \<^verbatim>\<open>calculateDropPosition\<close> returns \<^verbatim>\<open>null\<close> when the schedule is not mounted or the snapped
  interval leaves the window from 8 to 21, and the pair of start and end otherwise.
\<close>

definition calculateDropPosition ::
    "Container option \<Rightarrow> real \<Rightarrow> Task \<Rightarrow> (real \<times> real) option" where
  "calculateDropPosition scheduleContainerRef clientY tsk =
     (case scheduleContainerRef of
        None \<Rightarrow> None
      | Some container \<Rightarrow>
          (let relativeY = clientY - rect_top container + scrollTop container;
               hourDecimal = 8 + relativeY / HOUR_HEIGHT;
               snappedStart = snapToInterval hourDecimal SNAP_INTERVAL;
               durationHours = duration tsk / 60;
               snappedEnd = snappedStart + durationHours
           in if snappedStart < 8 \<or> snappedEnd > 21 then None
              else Some (snappedStart, snappedEnd)))"


section \<open>Handlers of the page served by the backend\<close>

text \<open>
  \<^verbatim>\<open>createTimeBlock\<close> clears the error banner, awaits the service, and appends the block the
  service returns; when the call is rejected it shows the message and throws again.
\<close>

definition createTimeBlock ::
    "'b promise \<Rightarrow> 'b PageState \<Rightarrow> 'b promise \<times> 'b PageState" where
  "createTimeBlock response s =
     (let s1 = s\<lparr>error := None\<rparr>
      in case response of
           Resolved newBlock \<Rightarrow> (Resolved newBlock, s1\<lparr>timeBlocks := timeBlocks s1 @ [newBlock]\<rparr>)
         | Rejected message \<Rightarrow> (Rejected message, s1\<lparr>error := Some message\<rparr>))"

text \<open>
  \<^verbatim>\<open>const addTimeBlock = async (task, startHour, endHour) => {
    if (endHour > 21) { alert('This task would extend beyond 9 PM.'); return; }
    if (hasConflict(startHour, endHour)) { alert('Time conflict detected!'); return; }
    try {
      await createTimeBlock({ task: {title, duration, color}, startHour, endHour });
      setTasks(tasks.filter(t => t.id !== task.id));
    } catch (error) { console.error(...); } };\<close>

  The result is the alert shown, if any, and the new state.
\<close>

definition addTimeBlock ::
    "'a TimeBlock_scheme promise \<Rightarrow> Task \<Rightarrow> real \<Rightarrow> real \<Rightarrow> 'a TimeBlock_scheme PageState
      \<Rightarrow> string option \<times> 'a TimeBlock_scheme PageState" where
  "addTimeBlock response tsk startHour' endHour' s =
     (if endHour' > 21 then (Some ''This task would extend beyond 9 PM.'', s)
      else if hasConflict (timeBlocks s) startHour' endHour' None
        then (Some ''Time conflict detected!'', s)
      else (case createTimeBlock response s of
              (Resolved newBlock, s1) \<Rightarrow>
                (None, s1\<lparr>tasks := filter (\<lambda>t. task_id t \<noteq> task_id tsk) (tasks s)\<rparr>)
            | (Rejected message, s1) \<Rightarrow> (None, s1)))"

text \<open>
  \<^verbatim>\<open>const completeTimeBlock = async (id) => {
    try {
      setError(null);
      const updatedBlock = await timeBlockAPI.markComplete(id);
      setTimeBlocks(prev => prev.map(block => block.id === id ? updatedBlock : block));
      setXp(prev => prev + 50);
      const newCompletedCount = timeBlocks.filter(b => b.id === id || b.completed).length;
      const willBePerfect = totalBlocks > 0 && newCompletedCount === totalBlocks;
      if (willBePerfect) setShowPerfectDay(true); else setShowDoneCheck(true);
    } catch (err) { setError(error.message); } };\<close>
\<close>

definition completeTimeBlock ::
    "'a TimeBlock_scheme promise \<Rightarrow> string \<Rightarrow> 'a TimeBlock_scheme PageState
      \<Rightarrow> 'a TimeBlock_scheme PageState" where
  "completeTimeBlock response i s =
     (let s1 = s\<lparr>error := None\<rparr>
      in case response of
           Rejected message \<Rightarrow> s1\<lparr>error := Some message\<rparr>
         | Resolved updatedBlock \<Rightarrow>
             (let s2 = s1\<lparr>timeBlocks :=
                         map (\<lambda>block. if block_id block = i then updatedBlock else block)
                           (timeBlocks s1)\<rparr>;
                  s3 = s2\<lparr>xp := xp s2 + 50\<rparr>;
                  newCompletedCount =
                    length (filter (\<lambda>b. block_id b = i \<or> completed b) (timeBlocks s));
                  willBePerfect =
                    (totalBlocks (timeBlocks s) > 0
                      \<and> newCompletedCount = totalBlocks (timeBlocks s))
              in if willBePerfect then s3\<lparr>showPerfectDay := True\<rparr>
                 else s3\<lparr>showDoneCheck := True\<rparr>))"

text \<open>
  \<^verbatim>\<open>const deleteTimeBlock = async (id) => {
    const block = timeBlocks.find(b => b.id === id);
    if (!block) return;
    try {
      setError(null);
      await timeBlockAPI.delete(id);
      setTimeBlocks(prev => prev.filter(b => b.id !== id));
      setTasks(prev => [...prev, block.task]);
      if (block.completed) setXp(prev => Math.max(0, prev - 50));
    } catch (err) { setError(error.message); } };\<close>
\<close>

definition deleteTimeBlock ::
    "unit promise \<Rightarrow> string \<Rightarrow> 'a TimeBlock_scheme PageState \<Rightarrow> 'a TimeBlock_scheme PageState" where
  "deleteTimeBlock response i s =
     (case find (\<lambda>b. block_id b = i) (timeBlocks s) of
        None \<Rightarrow> s
      | Some block \<Rightarrow>
          (let s1 = s\<lparr>error := None\<rparr>
           in case response of
                Rejected message \<Rightarrow> s1\<lparr>error := Some message\<rparr>
              | Resolved u \<Rightarrow>
                  (let s2 = s1\<lparr>timeBlocks := filter (\<lambda>b. block_id b \<noteq> i) (timeBlocks s1)\<rparr>;
                       s3 = s2\<lparr>tasks := tasks s2 @ [task block]\<rparr>
                   in if completed block then s3\<lparr>xp := max 0 (xp s3 - 50)\<rparr> else s3)))"


section \<open>Handlers of the page backed by local storage\<close>

text \<open>
  The second version of the page in the same file keeps its blocks in the browser's local
  storage (\<^verbatim>\<open>USE_MOCK_API\<close> is the constant \<^verbatim>\<open>true\<close>, so the branch that calls a server is
  never taken). The stored item is absent (\<open>None\<close>) or holds the list of blocks. The id of
  a new block is made from the clock and a random number: it is a parameter.
\<close>

record LocalState = "TimeBlock PageState" +
  storage :: "TimeBlock list option"

definition mockAPI_getBlocks :: "TimeBlock list option \<Rightarrow> TimeBlock list" where
  "mockAPI_getBlocks data = (case data of None \<Rightarrow> [] | Some blocks \<Rightarrow> blocks)"

definition mockAPI_createBlock ::
    "string \<Rightarrow> TimeBlock \<Rightarrow> TimeBlock list option \<Rightarrow> TimeBlock \<times> TimeBlock list option" where
  "mockAPI_createBlock newId block data =
     (let blocks = mockAPI_getBlocks data;
          newBlock = block\<lparr>block_id := newId\<rparr>
      in (newBlock, Some (blocks @ [newBlock])))"

fun findIndex :: "('a \<Rightarrow> bool) \<Rightarrow> 'a list \<Rightarrow> nat option" where
  "findIndex P [] = None"
| "findIndex P (x # xs) =
     (if P x then Some 0 else (case findIndex P xs of None \<Rightarrow> None | Some n \<Rightarrow> Some (Suc n)))"

definition mockAPI_updateBlock ::
    "string \<Rightarrow> (TimeBlock \<Rightarrow> TimeBlock) \<Rightarrow> TimeBlock list option
      \<Rightarrow> TimeBlock promise \<times> TimeBlock list option" where
  "mockAPI_updateBlock i updates data =
     (let blocks = mockAPI_getBlocks data
      in case findIndex (\<lambda>b. block_id b = i) blocks of
           None \<Rightarrow> (Rejected ''Block not found'', data)
         | Some index \<Rightarrow>
             (let blocks' = blocks[index := updates (blocks ! index)]
              in (Resolved (blocks' ! index), Some blocks')))"

definition mockAPI_deleteBlock :: "string \<Rightarrow> TimeBlock list option \<Rightarrow> TimeBlock list option" where
  "mockAPI_deleteBlock i data = Some (filter (\<lambda>b. block_id b \<noteq> i) (mockAPI_getBlocks data))"

definition createTimeBlockAPI :: "string \<Rightarrow> TimeBlock \<Rightarrow> LocalState \<Rightarrow> TimeBlock \<times> LocalState" where
  "createTimeBlockAPI newId block s =
     (case mockAPI_createBlock newId block (storage s) of
        (newBlock, data) \<Rightarrow>
          (newBlock, s\<lparr>storage := data, timeBlocks := timeBlocks s @ [newBlock]\<rparr>))"

definition updateTimeBlockAPI ::
    "string \<Rightarrow> (TimeBlock \<Rightarrow> TimeBlock) \<Rightarrow> LocalState \<Rightarrow> TimeBlock promise \<times> LocalState" where
  "updateTimeBlockAPI i updates s =
     (case mockAPI_updateBlock i updates (storage s) of
        (Resolved updatedBlock, data) \<Rightarrow>
          (Resolved updatedBlock,
           s\<lparr>storage := data,
             timeBlocks := map (\<lambda>block. if block_id block = i then updatedBlock else block)
                             (timeBlocks s)\<rparr>)
      | (Rejected message, data) \<Rightarrow>
          (Rejected message,
           s\<lparr>storage := data, error := Some ''Failed to update time block. Please try again.''\<rparr>))"

definition deleteTimeBlockAPI :: "string \<Rightarrow> LocalState \<Rightarrow> LocalState" where
  "deleteTimeBlockAPI i s =
     s\<lparr>storage := mockAPI_deleteBlock i (storage s),
       timeBlocks := filter (\<lambda>block. block_id block \<noteq> i) (timeBlocks s)\<rparr>"

text \<open>
  This version's \<^verbatim>\<open>addTimeBlock\<close> stores the dragged task itself in the new block:
  \<^verbatim>\<open>const newBlock = { task, startHour, endHour, completed: false };\<close>
\<close>

definition addTimeBlock_local ::
    "string \<Rightarrow> Task \<Rightarrow> real \<Rightarrow> real \<Rightarrow> LocalState \<Rightarrow> string option \<times> LocalState" where
  "addTimeBlock_local newId tsk startHour' endHour' s =
     (if endHour' > 21
        then (Some ''This task would extend beyond 9 PM. Please choose an earlier time.'', s)
      else if hasConflict (timeBlocks s) startHour' endHour' None
        then (Some ''Time conflict detected! Please choose a different time slot.'', s)
      else (let newBlock = \<lparr>block_id = [], task = tsk, startHour = startHour',
                             endHour = endHour', completed = False\<rparr>
            in case createTimeBlockAPI newId newBlock s of
                 (created, s1) \<Rightarrow>
                   (None, s1\<lparr>tasks := filter (\<lambda>t. task_id t \<noteq> task_id tsk) (tasks s)\<rparr>)))"

text \<open>
  \<^verbatim>\<open>const completeBlock = async (blockId) => {
    const block = timeBlocks.find(b => b.id === blockId);
    if (!block || block.completed) return;
    try {
      await updateTimeBlockAPI(blockId, { completed: true });
      setXp(prev => prev + 50);
      ... } catch (error) { console.error(...); } };\<close>
\<close>

definition completeBlock :: "string \<Rightarrow> LocalState \<Rightarrow> LocalState" where
  "completeBlock blockId s =
     (case find (\<lambda>b. block_id b = blockId) (timeBlocks s) of
        None \<Rightarrow> s
      | Some block \<Rightarrow>
          if completed block then s
          else (case updateTimeBlockAPI blockId (\<lambda>b. b\<lparr>completed := True\<rparr>) s of
                  (Rejected message, s1) \<Rightarrow> s1
                | (Resolved updatedBlock, s1) \<Rightarrow>
                    (let s2 = s1\<lparr>xp := xp s1 + 50\<rparr>;
                         newCompletedCount =
                           length (filter (\<lambda>b. block_id b = blockId \<or> completed b)
                                     (timeBlocks s));
                         willBePerfect =
                           (totalBlocks (timeBlocks s) > 0
                             \<and> newCompletedCount = totalBlocks (timeBlocks s))
                     in if willBePerfect then s2\<lparr>showPerfectDay := True\<rparr>
                        else s2\<lparr>showDoneCheck := True\<rparr>)))"

text \<open>
  \<^verbatim>\<open>const deleteBlock = async (blockId) => {
    const block = timeBlocks.find(b => b.id === blockId);
    if (!block) return;
    try {
      await deleteTimeBlockAPI(blockId);
      setTasks([...tasks, block.task]);
      if (block.completed) setXp(prev => Math.max(0, prev - 50));
    } catch (error) { console.error(...); } };\<close>
\<close>

definition deleteBlock :: "string \<Rightarrow> LocalState \<Rightarrow> LocalState" where
  "deleteBlock blockId s =
     (case find (\<lambda>b. block_id b = blockId) (timeBlocks s) of
        None \<Rightarrow> s
      | Some block \<Rightarrow>
          (let s1 = deleteTimeBlockAPI blockId s;
               s2 = s1\<lparr>tasks := tasks s @ [task block]\<rparr>
           in if completed block then s2\<lparr>xp := max 0 (xp s2 - 50)\<rparr> else s2))"


section \<open>The specification's wording, and example data\<close>

text \<open>
  Two definitions that follow the words of the specification instead of the code, to be
  compared with \<open>snapToInterval\<close> and \<open>hasConflict\<close>. The specification's snap isolates the
  sub-hour fractional part in minutes, rounds it to the nearest multiple of the interval
  (round half up) and recombines it with the integer hour part. Its conflict test holds when
  some block that does not match \<open>excludeId\<close> overlaps the candidate interval.
\<close>

definition round_half_up :: "real \<Rightarrow> int" where
  "round_half_up x = \<lfloor>x + 1 / 2\<rfloor>"

definition spec_snap :: "real \<Rightarrow> real \<Rightarrow> real" where
  "spec_snap fractionalHour intervalMinutes =
     (let hourPart = \<lfloor>fractionalHour\<rfloor>;
          minutes = (fractionalHour - of_int hourPart) * 60;
          rounded = of_int (round_half_up (minutes / intervalMinutes)) * intervalMinutes
      in of_int hourPart + rounded / 60)"

definition spec_hasConflict ::
    "'a TimeBlock_scheme list \<Rightarrow> real \<Rightarrow> real \<Rightarrow> string option \<Rightarrow> bool" where
  "spec_hasConflict existing candidateStart candidateEnd excludeId =
     list_ex
       (\<lambda>other. Some (block_id other) \<noteq> excludeId
                 \<and> candidateStart < endHour other \<and> candidateEnd > startHour other)
       existing"

abbreviation ex_task :: Task where
  "ex_task \<equiv>
     \<lparr>task_id = ''task-1'', title = ''Deep Work'', duration = 60, color = ''bg-blue-500''\<rparr>"

abbreviation ex_block :: "string \<Rightarrow> real \<Rightarrow> real \<Rightarrow> bool \<Rightarrow> TimeBlock" where
  "ex_block i st en done \<equiv>
     \<lparr>block_id = i, task = ex_task, startHour = st, endHour = en, completed = done\<rparr>"

abbreviation ex_state :: "Task list \<Rightarrow> TimeBlock list \<Rightarrow> real \<Rightarrow> TimeBlock PageState" where
  "ex_state pool placed points \<equiv>
     \<lparr>tasks = pool, timeBlocks = placed, xp = points, error = None,
      showDoneCheck = False, showPerfectDay = False\<rparr>"

abbreviation ex_local :: "Task list \<Rightarrow> TimeBlock list \<Rightarrow> real \<Rightarrow> LocalState" where
  "ex_local pool placed points \<equiv>
     \<lparr>tasks = pool, timeBlocks = placed, xp = points, error = None,
      showDoneCheck = False, showPerfectDay = False, storage = Some placed\<rparr>"


section \<open>Snapping to the grid\<close>

lemma math_round_half_up: "math_round x = round_half_up x"
proof (cases "x - of_int \<lfloor>x\<rfloor> < 1 / 2")
  case True
  then have "\<lfloor>x + 1 / 2\<rfloor> = \<lfloor>x\<rfloor>" by linarith
  with True show ?thesis by (simp add: math_round_def round_half_up_def)
next
  case False
  then have "\<lfloor>x + 1 / 2\<rfloor> = \<lfloor>x\<rfloor> + 1" by linarith
  with False show ?thesis by (simp add: math_round_def round_half_up_def)
qed

lemma rem1_nonneg: "0 \<le> x \<Longrightarrow> rem1 x = x - of_int \<lfloor>x\<rfloor>"
  by (simp add: rem1_def math_trunc_def)

lemma snap_refines: "0 \<le> h \<Longrightarrow> snapToInterval h m = spec_snap h m"
  by (simp add: snapToInterval_def spec_snap_def rem1_nonneg math_round_half_up math_floor_def
      Let_def)

lemma nearest_multiple:
  assumes "0 < (m::real)"
  shows "y - m / 2 < of_int (round_half_up (y / m)) * m"
    and "of_int (round_half_up (y / m)) * m \<le> y + m / 2"
proof -
  have a: "y / m - 1 / 2 < of_int (round_half_up (y / m))"
    unfolding round_half_up_def by linarith
  have b: "of_int (round_half_up (y / m)) \<le> y / m + 1 / 2"
    unfolding round_half_up_def by linarith
  from a assms have "(y / m - 1 / 2) * m < of_int (round_half_up (y / m)) * m"
    by (simp only: mult_strict_right_mono)
  with assms show "y - m / 2 < of_int (round_half_up (y / m)) * m"
    by (simp add: algebra_simps)
  from b assms have "of_int (round_half_up (y / m)) * m \<le> (y / m + 1 / 2) * m"
    by (simp only: mult_right_mono less_imp_le)
  with assms show "of_int (round_half_up (y / m)) * m \<le> y + m / 2"
    by (simp add: algebra_simps)
qed

lemma snap_near:
  assumes "0 \<le> h" "0 < m"
  shows "\<bar>snapToInterval h m - h\<bar> \<le> m / 120"
proof -
  define y where "y = (h - of_int \<lfloor>h\<rfloor>) * 60"
  define r where "r = of_int (round_half_up (y / m)) * m"
  have s: "snapToInterval h m = of_int \<lfloor>h\<rfloor> + r / 60"
    using assms by (simp add: snap_refines spec_snap_def Let_def y_def r_def)
  have lo: "y - m / 2 < r" and hi: "r \<le> y + m / 2"
    unfolding r_def using assms(2) by (simp_all only: nearest_multiple)
  define d where "d = snapToInterval h m - h"
  have e: "d * 60 = r - y"
    by (simp add: d_def s y_def algebra_simps)
  from lo hi e have "d \<le> m / 120" by argo
  moreover from lo hi e have "- d \<le> m / 120" by argo
  ultimately have "\<bar>d\<bar> \<le> m / 120" by (simp only: abs_le_iff)
  then show ?thesis by (simp only: d_def)
qed

lemma snap15_on_grid: "\<exists>k::int. snapToInterval h 15 = of_int k * (15 / 60)"
proof -
  have "snapToInterval h 15 = of_int (4 * \<lfloor>h\<rfloor> + math_round (rem1 h * 60 / 15)) * (15 / 60)"
    by (simp add: snapToInterval_def Let_def math_floor_def)
  then show ?thesis ..
qed

lemma snap15_grid:
  assumes "0 \<le> h"
  shows "\<exists>k\<in>{0,1,2,3,4::int}. snapToInterval h 15 = of_int \<lfloor>h\<rfloor> + of_int k / 4"
proof -
  define f where "f = h - of_int \<lfloor>h\<rfloor>"
  have f: "0 \<le> f" "f < 1" unfolding f_def by linarith+
  define k where "k = round_half_up (f * 60 / 15)"
  have "k = \<lfloor>4 * f + 1 / 2\<rfloor>" by (simp add: k_def round_half_up_def)
  with f have "0 \<le> k" "k \<le> 4" by linarith+
  then have "k \<in> {0,1,2,3,4}" by auto
  moreover have "snapToInterval h 15 = of_int \<lfloor>h\<rfloor> + of_int k / 4"
    using assms by (simp add: snap_refines spec_snap_def k_def f_def Let_def algebra_simps)
  ultimately show ?thesis by blast
qed

lemma snap_on_grid:
  assumes "k \<in> {0,1,2,3,4::int}" "0 \<le> n"
  shows "snapToInterval (of_int n + of_int k / 4) 15 = of_int n + of_int k / 4"
proof -
  have nn: "0 \<le> (of_int n :: real)" using assms by simp
  from assms(1) consider "k = 0" | "k = 1" | "k = 2" | "k = 3" | "k = 4" by auto
  then show ?thesis
  proof cases
    case 1
    then show ?thesis using nn
      by (simp add: snap_refines spec_snap_def round_half_up_def Let_def)
  next
    case 2
    have "\<lfloor>of_int n + 1 / (4::real)\<rfloor> = n" by linarith
    then show ?thesis using nn 2
      by (simp add: snap_refines spec_snap_def round_half_up_def Let_def)
  next
    case 3
    have "\<lfloor>of_int n + 1 / (2::real)\<rfloor> = n" by linarith
    then show ?thesis using nn 3
      by (simp add: snap_refines spec_snap_def round_half_up_def Let_def)
  next
    case 4
    have "\<lfloor>of_int n + 3 / (4::real)\<rfloor> = n" by linarith
    then show ?thesis using nn 4
      by (simp add: snap_refines spec_snap_def round_half_up_def Let_def)
  next
    case 5
    have "\<lfloor>of_int n + (1::real)\<rfloor> = n + 1" by linarith
    then show ?thesis using nn 5
      by (simp add: snap_refines spec_snap_def round_half_up_def Let_def)
  qed
qed

text \<open>
  Claim C3, as amended. For every hour \<open>h \<ge> 0\<close> and every interval \<open>m > 0\<close>,
  \<open>snapToInterval h m\<close> is the specification's snap: the integer hour part \<open>\<lfloor>h\<rfloor>\<close> plus a
  multiple \<open>k * m\<close> of the interval, in minutes, that lies within half an interval of the
  sub-hour minutes \<open>(h - \<lfloor>h\<rfloor>) * 60\<close>, the upper multiple when two are equally near; so the
  result is within half an interval of \<open>h\<close>. In
  particular 9.42 snaps to 9.5 on the 15-minute grid, 9:07 snaps to 9.0, and a 60-minute
  task dropped at the pointer position of 9:07 gives the block from 9.0 to 10.0.
  Hours below zero are left out of the statement: the claim as stated, for every hour,
  fails at minus one half, as the counterexample after the witness shows.
\<close>

theorem snapToInterval_rounds:
  "(0 \<le> h \<and> 0 < m \<longrightarrow>
      snapToInterval h m = spec_snap h m
      \<and> (\<exists>k::int. snapToInterval h m = of_int \<lfloor>h\<rfloor> + (of_int k * m) / 60
            \<and> (h - of_int \<lfloor>h\<rfloor>) * 60 - m / 2 < of_int k * m
            \<and> of_int k * m \<le> (h - of_int \<lfloor>h\<rfloor>) * 60 + m / 2)
      \<and> \<bar>snapToInterval h m - h\<bar> \<le> m / 120)
   \<and> snapToInterval (942 / 100) 15 = 19 / 2
   \<and> snapToInterval (9 + 7 / 60) 15 = 9
   \<and> calculateDropPosition (Some \<lparr>rect_top = 0, scrollTop = 0\<rparr>) (268 / 3) ex_task = Some (9, 10)"
proof (intro conjI impI)
  assume a: "0 \<le> h \<and> 0 < m"
  then show r: "snapToInterval h m = spec_snap h m" by (simp add: snap_refines)
  define k where "k = round_half_up ((h - of_int \<lfloor>h\<rfloor>) * 60 / m)"
  have "snapToInterval h m = of_int \<lfloor>h\<rfloor> + (of_int k * m) / 60"
    by (simp add: r spec_snap_def Let_def k_def)
  moreover from a have "(h - of_int \<lfloor>h\<rfloor>) * 60 - m / 2 < of_int k * m"
    unfolding k_def by (simp only: nearest_multiple)
  moreover from a have "of_int k * m \<le> (h - of_int \<lfloor>h\<rfloor>) * 60 + m / 2"
    unfolding k_def by (simp only: nearest_multiple)
  ultimately show "\<exists>k::int. snapToInterval h m = of_int \<lfloor>h\<rfloor> + (of_int k * m) / 60
            \<and> (h - of_int \<lfloor>h\<rfloor>) * 60 - m / 2 < of_int k * m
            \<and> of_int k * m \<le> (h - of_int \<lfloor>h\<rfloor>) * 60 + m / 2"
    by blast
  from a have "0 \<le> h" "0 < m" by simp_all
  then show "\<bar>snapToInterval h m - h\<bar> \<le> m / 120" by (rule snap_near)
next
  show "snapToInterval (942 / 100) 15 = 19 / 2"
    by (simp add: snapToInterval_def rem1_def math_trunc_def math_round_def math_floor_def)
next
  show "snapToInterval (9 + 7 / 60) 15 = 9"
    by (simp add: snapToInterval_def rem1_def math_trunc_def math_round_def math_floor_def)
next
  show "calculateDropPosition (Some \<lparr>rect_top = 0, scrollTop = 0\<rparr>) (268 / 3) ex_task = Some (9, 10)"
    by (simp add: calculateDropPosition_def Let_def HOUR_HEIGHT_def SNAP_INTERVAL_def
        snapToInterval_def rem1_def math_trunc_def math_round_def math_floor_def)
qed

theorem snapToInterval_rounds_witness:
  "(0::real) \<le> 37 / 5 \<and> (0::real) < 20 \<and> snapToInterval (37 / 5) 20 = spec_snap (37 / 5) 20
   \<and> spec_snap (37 / 5) 20 = 22 / 3"
  using snapToInterval_rounds [of "37 / 5" 20]
  by (simp add: spec_snap_def round_half_up_def)

text \<open>
  At minus half an hour the code returns minus one and a half, a whole hour away from its
  input: the remainder is \<open>-30\<close> minutes and the floor is \<open>-1\<close>. Isolating the sub-hour part
  and recombining it with the hour part gives minus one half, whether the two parts are
  taken by rounding down (30 minutes past hour \<open>-1\<close>) or by truncation (\<open>-30\<close> minutes past
  hour 0).
\<close>

theorem snapToInterval_negative_counterexample:
  "snapToInterval (- 1 / 2) 15 = - 3 / 2
   \<and> spec_snap (- 1 / 2) 15 = - 1 / 2
   \<and> of_int (math_trunc (- 1 / 2)) + of_int (round_half_up (rem1 (- 1 / 2) * 60 / 15)) * 15 / 60
       = (- 1 / 2 :: real)
   \<and> \<bar>snapToInterval (- 1 / 2) 15 - (- 1 / 2)\<bar> = 1"
  by (simp add: snapToInterval_def rem1_def math_trunc_def math_round_def math_floor_def
      spec_snap_def round_half_up_def)

text \<open>
  Claim C9, as amended. On the 15-minute grid the snap is idempotent for every hour
  \<open>h \<ge> 0\<close>: snapping a snapped value returns it. The first snap lands on \<open>\<lfloor>h\<rfloor> + k / 4\<close>
  with \<open>k\<close> from 0 to 4, and each such value is a fixed point.
\<close>

theorem snap15_idempotent:
  assumes "0 \<le> h"
  shows "snapToInterval (snapToInterval h 15) 15 = snapToInterval h 15"
proof -
  from snap15_grid [OF assms] obtain k where k: "k \<in> {0,1,2,3,4::int}"
    and e: "snapToInterval h 15 = of_int \<lfloor>h\<rfloor> + of_int k / 4" by blast
  have "0 \<le> \<lfloor>h\<rfloor>" using assms by simp
  from snap_on_grid [OF k this] e show ?thesis by simp
qed

theorem snap15_idempotent_witness:
  "(0::real) \<le> 942 / 100 \<and> snapToInterval (942 / 100) 15 = 19 / 2
   \<and> snapToInterval (snapToInterval (942 / 100) 15) 15 = 19 / 2"
  using snap15_idempotent [of "942 / 100"]
  by (simp add: snapToInterval_def rem1_def math_trunc_def math_round_def math_floor_def)

text \<open>
  Below zero a second snap moves the value again: minus one half goes to minus one and a
  half, and that goes to minus two and a half.
\<close>

theorem snap15_negative_counterexample:
  "snapToInterval (- 1 / 2) 15 = - 3 / 2
   \<and> snapToInterval (snapToInterval (- 1 / 2) 15) 15 = - 5 / 2
   \<and> snapToInterval (snapToInterval (- 1 / 2) 15) 15 \<noteq> snapToInterval (- 1 / 2) 15"
  by (simp add: snapToInterval_def rem1_def math_trunc_def math_round_def math_floor_def)


section \<open>Formatting an hour\<close>

lemma toString_nat_digit: "n < 10 \<Longrightarrow> toString_nat n = [digit_char n]"
  by (simp add: toString_nat.simps)

lemma toString_nat_two:
  assumes "10 \<le> n" "n < 100"
  shows "toString_nat n = [digit_char (n div 10), digit_char (n mod 10)]"
proof -
  from assms have "n div 10 < 10" by simp
  then have "toString_nat (n div 10) = [digit_char (n div 10)]"
    by (rule toString_nat_digit)
  with assms show ?thesis
    by (subst toString_nat.simps) simp
qed

lemma pad_two_digits:
  assumes "n < 100"
  shows "padStart (toString (int n)) 2 CHR ''0'' = [digit_char (n div 10), digit_char (n mod 10)]"
proof (cases "n < 10")
  case True
  then have "digit_char (n div 10) = CHR ''0''" by (simp add: digit_char_def)
  with True show ?thesis
    by (simp add: padStart_def toString_def toString_nat_digit)
next
  case False
  with assms have "toString_nat n = [digit_char (n div 10), digit_char (n mod 10)]"
    by (simp add: toString_nat_two)
  then show ?thesis by (simp add: padStart_def toString_def)
qed

lemma minutes_range:
  assumes "0 \<le> hour"
  shows "0 \<le> math_round (rem1 hour * 60)" "math_round (rem1 hour * 60) \<le> 60"
    "math_round (rem1 hour * 60) = 60 \<longleftrightarrow> 119 / 120 \<le> hour - of_int \<lfloor>hour\<rfloor>"
proof -
  define f where "f = hour - of_int \<lfloor>hour\<rfloor>"
  have f: "0 \<le> f" "f < 1" unfolding f_def by linarith+
  have m: "math_round (rem1 hour * 60) = \<lfloor>f * 60 + 1 / 2\<rfloor>"
    using assms by (simp add: rem1_nonneg math_round_half_up round_half_up_def f_def)
  from f show "0 \<le> math_round (rem1 hour * 60)" unfolding m by linarith
  from f show "math_round (rem1 hour * 60) \<le> 60" unfolding m by linarith
  from f show "math_round (rem1 hour * 60) = 60 \<longleftrightarrow> 119 / 120 \<le> hour - of_int \<lfloor>hour\<rfloor>"
    unfolding m f_def [symmetric] by linarith
qed

text \<open>
  Claim C10. \<open>formatTime\<close> takes the minutes as \<open>Math.round((hour % 1) * 60)\<close> and carries
  nothing into the hour: whenever the minutes round to 60 the result is the two-digit hour
  of \<open>\<lfloor>hour\<rfloor>\<close> followed by \<open>:60\<close>, so 9.9999 prints as \<open>09:60\<close>. For every hour from 0
  up to but excluding 24 the hour field is at most 23, the minutes field is at most 60 and
  is 60 exactly when the sub-hour part is at least 59.5 minutes (otherwise it lies between
  0 and 59), and each field is printed with exactly two digits.
\<close>

theorem formatTime_fields:
  "(math_round (rem1 hour * 60) = 60 \<longrightarrow>
      formatTime hour = padStart (toString (math_floor hour)) 2 CHR ''0'' @ '':60'')
   \<and> formatTime (99999 / 10000) = ''09:60''
   \<and> (0 \<le> hour \<and> hour < 24 \<longrightarrow>
        (\<exists>h m. int h = math_floor hour \<and> int m = math_round (rem1 hour * 60)
           \<and> h \<le> 23 \<and> (m \<le> 59 \<or> m = 60)
           \<and> (m = 60 \<longleftrightarrow> 119 / 120 \<le> hour - of_int \<lfloor>hour\<rfloor>)
           \<and> formatTime hour =
               [digit_char (h div 10), digit_char (h mod 10), CHR '':'',
                digit_char (m div 10), digit_char (m mod 10)]))"
proof (intro conjI impI)
  assume "math_round (rem1 hour * 60) = 60"
  moreover have "padStart (toString 60) 2 CHR ''0'' = ''60''"
    using pad_two_digits [of 60] by (simp add: digit_char_def)
  ultimately show "formatTime hour = padStart (toString (math_floor hour)) 2 CHR ''0'' @ '':60''"
    by (simp add: formatTime_def Let_def)
next
  show "formatTime (99999 / 10000) = ''09:60''" by code_simp
next
  assume a: "0 \<le> hour \<and> hour < 24"
  define h where "h = nat (math_floor hour)"
  define m where "m = nat (math_round (rem1 hour * 60))"
  from a have hh: "int h = math_floor hour" "h \<le> 23"
    unfolding h_def math_floor_def by linarith+
  from a minutes_range [of hour] have mm: "int m = math_round (rem1 hour * 60)" "m \<le> 60"
    "m = 60 \<longleftrightarrow> 119 / 120 \<le> hour - of_int \<lfloor>hour\<rfloor>"
    unfolding m_def by linarith+
  have "formatTime hour =
      padStart (toString (int h)) 2 CHR ''0'' @ '':'' @ padStart (toString (int m)) 2 CHR ''0''"
    by (simp add: formatTime_def Let_def hh mm)
  also have "\<dots> = [digit_char (h div 10), digit_char (h mod 10), CHR '':'',
                digit_char (m div 10), digit_char (m mod 10)]"
    using hh(2) mm(2) by (simp add: pad_two_digits)
  finally show "\<exists>h m. int h = math_floor hour \<and> int m = math_round (rem1 hour * 60)
           \<and> h \<le> 23 \<and> (m \<le> 59 \<or> m = 60)
           \<and> (m = 60 \<longleftrightarrow> 119 / 120 \<le> hour - of_int \<lfloor>hour\<rfloor>)
           \<and> formatTime hour =
               [digit_char (h div 10), digit_char (h mod 10), CHR '':'',
                digit_char (m div 10), digit_char (m mod 10)]"
    using hh mm by (intro exI [of _ h] exI [of _ m]) auto
qed

theorem formatTime_fields_witness:
  "math_round (rem1 (99999 / 10000) * 60) = 60
   \<and> formatTime (99999 / 10000) = ''09:60''
   \<and> (0::real) \<le> 37 / 4 \<and> (37 / 4 :: real) < 24
   \<and> formatTime (37 / 4) = ''09:15''"
proof -
  have m: "math_round (rem1 (99999 / 10000) * 60) = 60"
    by (simp add: math_round_def rem1_def math_trunc_def)
  have f: "math_floor (37 / 4) = 9" "math_round (rem1 (37 / 4) * 60) = 15"
    by (simp_all add: math_round_def rem1_def math_trunc_def math_floor_def)
  from formatTime_fields [of "37 / 4"] obtain h m :: nat where
    "int h = math_floor (37 / 4)" "int m = math_round (rem1 (37 / 4) * 60)"
    "formatTime (37 / 4) = [digit_char (h div 10), digit_char (h mod 10), CHR '':'',
                digit_char (m div 10), digit_char (m mod 10)]"
    by auto
  with f have a: "formatTime (37 / 4) = ''09:15''"
    by (simp add: digit_char_def)
  have b: "formatTime (99999 / 10000) = ''09:60''"
    using formatTime_fields [of "99999 / 10000"] by blast
  from m a b show ?thesis by simp
qed


section \<open>Conflicts\<close>

lemma hasConflict_set:
  "hasConflict tbs s e x \<longleftrightarrow>
     (\<exists>b\<in>set tbs. \<not> (truthy x \<and> Some (block_id b) = x) \<and> s < endHour b \<and> e > startHour b)"
  by (auto simp: hasConflict_def list_ex_iff)

lemma spec_hasConflict_set:
  "spec_hasConflict tbs s e x \<longleftrightarrow>
     (\<exists>b\<in>set tbs. Some (block_id b) \<noteq> x \<and> s < endHour b \<and> e > startHour b)"
  by (auto simp: spec_hasConflict_def list_ex_iff)

text \<open>
  Claim C1, as amended. When \<open>excludeId\<close> is left out or is a non-empty string,
  \<open>hasConflict\<close> is true exactly when some block whose id differs from \<open>excludeId\<close> satisfies
  \<open>candidateStart < block.endHour\<close> and \<open>candidateEnd > block.startHour\<close>. An empty string
  counts as false in the guard \<^verbatim>\<open>excludeId && block.id === excludeId\<close>, so an empty
  \<open>excludeId\<close> excludes no block. Whatever \<open>excludeId\<close> is, a candidate that every block
  ends before or at the start of, or begins after or at the end of, has no conflict:
  touching and disjoint intervals never conflict.
\<close>

theorem hasConflict_overlap:
  "(excludeId \<noteq> Some [] \<longrightarrow>
      hasConflict tbs s e excludeId =
        (\<exists>b\<in>set tbs. Some (block_id b) \<noteq> excludeId \<and> s < endHour b \<and> e > startHour b))
   \<and> hasConflict tbs s e (Some []) = (\<exists>b\<in>set tbs. s < endHour b \<and> e > startHour b)
   \<and> ((\<forall>b\<in>set tbs. endHour b \<le> s \<or> e \<le> startHour b) \<longrightarrow> \<not> hasConflict tbs s e excludeId)"
proof (intro conjI impI)
  assume "excludeId \<noteq> Some []"
  then have "truthy excludeId \<or> excludeId = None"
    by (cases excludeId) (simp_all add: truthy_def)
  then show "hasConflict tbs s e excludeId =
        (\<exists>b\<in>set tbs. Some (block_id b) \<noteq> excludeId \<and> s < endHour b \<and> e > startHour b)"
    by (auto simp: hasConflict_set truthy_def)
next
  show "hasConflict tbs s e (Some []) = (\<exists>b\<in>set tbs. s < endHour b \<and> e > startHour b)"
    by (simp add: hasConflict_set truthy_def)
next
  assume "\<forall>b\<in>set tbs. endHour b \<le> s \<or> e \<le> startHour b"
  then show "\<not> hasConflict tbs s e excludeId"
    by (fastforce simp: hasConflict_set)
qed

theorem hasConflict_overlap_witness:
  "hasConflict [ex_block ''1'' 9 10 False] (39 / 4) (41 / 4) (Some ''2'')
   \<and> \<not> hasConflict [ex_block ''1'' 9 10 False] (39 / 4) (41 / 4) (Some ''1'')
   \<and> \<not> hasConflict [ex_block ''1'' 9 10 False] 10 11 None
   \<and> \<not> hasConflict [ex_block ''1'' 9 10 False] 8 9 None"
  using hasConflict_overlap [of "Some ''2''" "[ex_block ''1'' 9 10 False]" "39 / 4" "41 / 4"]
    hasConflict_overlap [of "Some ''1''" "[ex_block ''1'' 9 10 False]" "39 / 4" "41 / 4"]
    hasConflict_overlap [of None "[ex_block ''1'' 9 10 False]" 10 11]
    hasConflict_overlap [of None "[ex_block ''1'' 9 10 False]" 8 9]
  by simp

text \<open>
  A block whose id is the empty string is not excluded by the empty \<open>excludeId\<close> it
  matches: the code reports a conflict where the stated equivalence says there is none.
\<close>

theorem hasConflict_empty_excludeId_counterexample:
  "hasConflict [ex_block [] 9 10 False] 9 10 (Some [])
   \<and> \<not> spec_hasConflict [ex_block [] 9 10 False] 9 10 (Some [])"
  by (simp add: hasConflict_def spec_hasConflict_def truthy_def)


section \<open>Drop position\<close>

text \<open>
  Claim C2. Whatever the pointer coordinate, the geometry and scroll offset of the
  schedule and the duration of the task, a target returned by \<open>calculateDropPosition\<close>
  starts at 8 or later, ends at 21 or earlier, ends \<open>duration / 60\<close> hours after its
  start, and starts at the snap of the pointer's hour, a multiple of a quarter of an hour.
  Every other call returns no target; a 90-minute task at the pointer position of 20:00
  would end at 21.5 and gets none.
\<close>

theorem calculateDropPosition_window:
  "(calculateDropPosition c y t = Some (st, en) \<longrightarrow>
      8 \<le> st \<and> en \<le> 21 \<and> en = st + duration t / 60
      \<and> (\<exists>container. c = Some container
            \<and> st = snapToInterval (8 + (y - rect_top container + scrollTop container) / 80) 15)
      \<and> (\<exists>k::int. st = of_int k * (15 / 60)))
   \<and> snapToInterval (8 + 960 / 80) 15 = 20
   \<and> calculateDropPosition (Some \<lparr>rect_top = 0, scrollTop = 0\<rparr>) 960 (ex_task\<lparr>duration := 90\<rparr>)
       = None"
proof (intro conjI impI)
  assume a: "calculateDropPosition c y t = Some (st, en)"
  then obtain container where c: "c = Some container"
    by (cases c) (simp_all add: calculateDropPosition_def)
  define h where "h = 8 + (y - rect_top container + scrollTop container) / 80"
  from a c have r: "\<not> (snapToInterval h 15 < 8 \<or> snapToInterval h 15 + duration t / 60 > 21)"
    "st = snapToInterval h 15" "en = snapToInterval h 15 + duration t / 60"
    by (auto simp: calculateDropPosition_def Let_def HOUR_HEIGHT_def SNAP_INTERVAL_def h_def
        split: if_splits)
  from r show "8 \<le> st" by simp
  from r show "en \<le> 21" by simp
  from r show "en = st + duration t / 60" by simp
  from r c show "\<exists>container. c = Some container
            \<and> st = snapToInterval (8 + (y - rect_top container + scrollTop container) / 80) 15"
    by (simp add: h_def)
  from r snap15_on_grid [of h] show "\<exists>k::int. st = of_int k * (15 / 60)" by simp
next
  show "snapToInterval (8 + 960 / 80) 15 = 20"
    by (simp add: snapToInterval_def rem1_def math_trunc_def math_round_def math_floor_def)
next
  show "calculateDropPosition (Some \<lparr>rect_top = 0, scrollTop = 0\<rparr>) 960 (ex_task\<lparr>duration := 90\<rparr>)
      = None"
    by (simp add: calculateDropPosition_def Let_def HOUR_HEIGHT_def SNAP_INTERVAL_def
        snapToInterval_def rem1_def math_trunc_def math_round_def math_floor_def)
qed

theorem calculateDropPosition_window_witness:
  "calculateDropPosition (Some \<lparr>rect_top = 100, scrollTop = 40\<rparr>) 150 ex_task
     = Some (37 / 4, 41 / 4)
   \<and> (8::real) \<le> 37 / 4 \<and> (41 / 4 :: real) \<le> 21"
proof -
  have e: "calculateDropPosition (Some \<lparr>rect_top = 100, scrollTop = 40\<rparr>) 150 ex_task
      = Some (37 / 4, 41 / 4)"
    by (simp add: calculateDropPosition_def Let_def HOUR_HEIGHT_def SNAP_INTERVAL_def
        snapToInterval_def rem1_def math_trunc_def math_round_def math_floor_def)
  with calculateDropPosition_window
    [of "Some \<lparr>rect_top = 100, scrollTop = 40\<rparr>" 150 ex_task "37 / 4" "41 / 4"]
  show ?thesis by simp
qed


section \<open>Placing a task\<close>

lemma addTimeBlock_late:
  "21 < en \<Longrightarrow> addTimeBlock response t st en s = (Some ''This task would extend beyond 9 PM.'', s)"
  by (simp add: addTimeBlock_def)

lemma addTimeBlock_conflict:
  "en \<le> 21 \<Longrightarrow> hasConflict (timeBlocks s) st en None \<Longrightarrow>
     addTimeBlock response t st en s = (Some ''Time conflict detected!'', s)"
  by (simp add: addTimeBlock_def)

lemma addTimeBlock_created:
  "en \<le> 21 \<Longrightarrow> \<not> hasConflict (timeBlocks s) st en None \<Longrightarrow>
     addTimeBlock (Resolved nb) t st en s =
       (None, s\<lparr>error := None, timeBlocks := timeBlocks s @ [nb],
                 tasks := filter (\<lambda>x. task_id x \<noteq> task_id t) (tasks s)\<rparr>)"
  by (simp add: addTimeBlock_def createTimeBlock_def Let_def)

lemma addTimeBlock_failed:
  "en \<le> 21 \<Longrightarrow> \<not> hasConflict (timeBlocks s) st en None \<Longrightarrow>
     addTimeBlock (Rejected msg) t st en s = (None, s\<lparr>error := Some msg\<rparr>)"
  by (simp add: addTimeBlock_def createTimeBlock_def Let_def)

text \<open>
  Claim C4, as amended. Before any change of state \<open>addTimeBlock\<close> rejects every target
  whose end is after 21: it shows the alert about 9 PM and returns the state as it was,
  whatever the service would answer, so such a target is never clipped. That is its only
  bounds check: a target that ends at 21 or earlier never gets the bounds alert, and when
  it overlaps no block and the service accepts it, the block is added and the task leaves
  the pool, also when it starts before 8. Only \<open>calculateDropPosition\<close> checks the start.
\<close>

theorem addTimeBlock_bounds:
  "(21 < en \<longrightarrow>
      addTimeBlock response t st en s = (Some ''This task would extend beyond 9 PM.'', s))
   \<and> (en \<le> 21 \<longrightarrow>
        fst (addTimeBlock response t st en s) \<noteq> Some ''This task would extend beyond 9 PM.'')
   \<and> (en \<le> 21 \<and> \<not> hasConflict (timeBlocks s) st en None \<longrightarrow>
        addTimeBlock (Resolved nb) t st en s =
          (None, s\<lparr>error := None, timeBlocks := timeBlocks s @ [nb],
                    tasks := filter (\<lambda>x. task_id x \<noteq> task_id t) (tasks s)\<rparr>))"
proof (intro conjI impI)
  assume "21 < en"
  then show "addTimeBlock response t st en s = (Some ''This task would extend beyond 9 PM.'', s)"
    by (rule addTimeBlock_late)
next
  assume le: "en \<le> 21"
  show "fst (addTimeBlock response t st en s) \<noteq> Some ''This task would extend beyond 9 PM.''"
  proof (cases "hasConflict (timeBlocks s) st en None")
    case True
    with le show ?thesis by (simp add: addTimeBlock_conflict)
  next
    case False
    with le show ?thesis
      by (cases response) (simp_all add: addTimeBlock_created addTimeBlock_failed)
  qed
next
  assume "en \<le> 21 \<and> \<not> hasConflict (timeBlocks s) st en None"
  then show "addTimeBlock (Resolved nb) t st en s =
          (None, s\<lparr>error := None, timeBlocks := timeBlocks s @ [nb],
                    tasks := filter (\<lambda>x. task_id x \<noteq> task_id t) (tasks s)\<rparr>)"
    by (simp add: addTimeBlock_created)
qed

theorem addTimeBlock_bounds_witness:
  "addTimeBlock (Resolved (ex_block ''1'' 20 (43 / 2) False)) ex_task 20 (43 / 2) (ex_state [ex_task] [] 0)
     = (Some ''This task would extend beyond 9 PM.'', ex_state [ex_task] [] 0)
   \<and> addTimeBlock (Resolved (ex_block ''1'' 9 10 False)) ex_task 9 10 (ex_state [ex_task] [] 0)
     = (None, ex_state [] [ex_block ''1'' 9 10 False] 0)"
  using addTimeBlock_bounds [of "43 / 2" "Resolved (ex_block ''1'' 20 (43 / 2) False)" ex_task 20
      "ex_state [ex_task] [] 0"]
    addTimeBlock_bounds [of 10 "Resolved (ex_block ''1'' 9 10 False)" ex_task 9
      "ex_state [ex_task] [] 0" "ex_block ''1'' 9 10 False"]
  by (simp add: hasConflict_def)

text \<open>
  A target from 7 to 8, built without \<open>calculateDropPosition\<close>, is placed.
\<close>

theorem addTimeBlock_early_start_counterexample:
  "(7::real) < 8
   \<and> addTimeBlock (Resolved (ex_block ''1'' 7 8 False)) ex_task 7 8 (ex_state [ex_task] [] 0)
     = (None, ex_state [] [ex_block ''1'' 7 8 False] 0)"
  by (simp add: addTimeBlock_def createTimeBlock_def hasConflict_def Let_def)


section \<open>Deleting a block\<close>

lemma find_None_iff_id: "find (\<lambda>b. block_id b = i) tbs = None \<longleftrightarrow> i \<notin> block_id ` set tbs"
  by (auto simp: find_None_iff)

lemma deleteTimeBlock_missing:
  "i \<notin> block_id ` set (timeBlocks s) \<Longrightarrow> deleteTimeBlock response i s = s"
  by (simp add: deleteTimeBlock_def find_None_iff_id[symmetric] del: find_None_iff)

lemma deleteTimeBlock_resolved:
  "find (\<lambda>b. block_id b = i) (timeBlocks s) = Some block \<Longrightarrow>
     deleteTimeBlock (Resolved u) i s =
       s\<lparr>error := None,
         timeBlocks := filter (\<lambda>b. block_id b \<noteq> i) (timeBlocks s),
         tasks := tasks s @ [task block],
         xp := (if completed block then max 0 (xp s - 50) else xp s)\<rparr>"
  by (simp add: deleteTimeBlock_def Let_def)

lemma deleteTimeBlock_rejected:
  "find (\<lambda>b. block_id b = i) (timeBlocks s) = Some block \<Longrightarrow>
     deleteTimeBlock (Rejected msg) i s = s\<lparr>error := Some msg\<rparr>"
  by (simp add: deleteTimeBlock_def Let_def)

lemma deleteTimeBlock_xp_nonneg: "0 \<le> xp s \<Longrightarrow> 0 \<le> xp (deleteTimeBlock response i s)"
  by (cases response; cases "find (\<lambda>b. block_id b = i) (timeBlocks s)")
    (simp_all add: deleteTimeBlock_def Let_def)

text \<open>
  Claim C8, as amended. When no block has the id, \<open>deleteTimeBlock\<close> leaves the whole state
  as it is. When \<open>block\<close> is the block found for the id and the service's delete call
  resolves, every block with that id leaves the schedule, \<open>block.task\<close> is appended to the
  end of the pool, and the points become \<open>max 0 (xp - 50)\<close> if the block was completed and
  stay as they are otherwise. When the call is rejected, pool, schedule and points stay as
  they are and the error message is shown. Points that are not negative stay so.
\<close>

theorem deleteTimeBlock_cases:
  "(i \<notin> block_id ` set (timeBlocks s) \<longrightarrow> deleteTimeBlock response i s = s)
   \<and> (find (\<lambda>b. block_id b = i) (timeBlocks s) = Some block \<longrightarrow>
        timeBlocks (deleteTimeBlock (Resolved u) i s) = filter (\<lambda>b. block_id b \<noteq> i) (timeBlocks s)
        \<and> i \<notin> block_id ` set (timeBlocks (deleteTimeBlock (Resolved u) i s))
        \<and> tasks (deleteTimeBlock (Resolved u) i s) = tasks s @ [task block]
        \<and> xp (deleteTimeBlock (Resolved u) i s) = (if completed block then max 0 (xp s - 50) else xp s)
        \<and> timeBlocks (deleteTimeBlock (Rejected msg) i s) = timeBlocks s
        \<and> tasks (deleteTimeBlock (Rejected msg) i s) = tasks s
        \<and> xp (deleteTimeBlock (Rejected msg) i s) = xp s
        \<and> error (deleteTimeBlock (Rejected msg) i s) = Some msg)
   \<and> (0 \<le> xp s \<longrightarrow> 0 \<le> xp (deleteTimeBlock response i s))"
proof (intro conjI impI)
  assume "i \<notin> block_id ` set (timeBlocks s)"
  then show "deleteTimeBlock response i s = s" by (rule deleteTimeBlock_missing)
next
  assume f: "find (\<lambda>b. block_id b = i) (timeBlocks s) = Some block"
  note r = deleteTimeBlock_resolved[OF f] deleteTimeBlock_rejected[OF f]
  show "timeBlocks (deleteTimeBlock (Resolved u) i s) = filter (\<lambda>b. block_id b \<noteq> i) (timeBlocks s)"
    by (simp add: r)
  show "i \<notin> block_id ` set (timeBlocks (deleteTimeBlock (Resolved u) i s))"
    by (auto simp: r)
  show "tasks (deleteTimeBlock (Resolved u) i s) = tasks s @ [task block]"
    by (simp add: r)
  show "xp (deleteTimeBlock (Resolved u) i s) = (if completed block then max 0 (xp s - 50) else xp s)"
    by (simp add: r)
  show "timeBlocks (deleteTimeBlock (Rejected msg) i s) = timeBlocks s"
    by (simp add: r)
  show "tasks (deleteTimeBlock (Rejected msg) i s) = tasks s"
    by (simp add: r)
  show "xp (deleteTimeBlock (Rejected msg) i s) = xp s"
    by (simp add: r)
  show "error (deleteTimeBlock (Rejected msg) i s) = Some msg"
    by (simp add: r)
next
  assume "0 \<le> xp s"
  then show "0 \<le> xp (deleteTimeBlock response i s)" by (rule deleteTimeBlock_xp_nonneg)
qed

theorem deleteTimeBlock_cases_witness:
  "deleteTimeBlock (Resolved ()) ''2'' (ex_state [] [ex_block ''1'' 9 10 True] 50)
     = ex_state [] [ex_block ''1'' 9 10 True] 50
   \<and> timeBlocks (deleteTimeBlock (Resolved ()) ''1'' (ex_state [] [ex_block ''1'' 9 10 True] 20)) = []
   \<and> tasks (deleteTimeBlock (Resolved ()) ''1'' (ex_state [] [ex_block ''1'' 9 10 True] 20)) = [ex_task]
   \<and> xp (deleteTimeBlock (Resolved ()) ''1'' (ex_state [] [ex_block ''1'' 9 10 True] 20)) = 0
   \<and> (0::real) \<le> 20
   \<and> 0 \<le> xp (deleteTimeBlock (Resolved ()) ''1'' (ex_state [] [ex_block ''1'' 9 10 True] 20))
   \<and> timeBlocks (deleteTimeBlock (Rejected ''Network Error'') ''1''
         (ex_state [] [ex_block ''1'' 9 10 True] 20)) = [ex_block ''1'' 9 10 True]"
  using deleteTimeBlock_cases [of "''2''" "ex_state [] [ex_block ''1'' 9 10 True] 50" "Resolved ()"]
    deleteTimeBlock_cases [of "''1''" "ex_state [] [ex_block ''1'' 9 10 True] 20" "Resolved ()"
      "ex_block ''1'' 9 10 True" "()" "''Network Error''"]
  by simp

text \<open>
  The block exists, the delete call is rejected, and the block stays in the schedule.
\<close>

theorem deleteTimeBlock_rejected_counterexample:
  "find (\<lambda>b. block_id b = ''1'') (timeBlocks (ex_state [] [ex_block ''1'' 9 10 True] 50))
     = Some (ex_block ''1'' 9 10 True)
   \<and> deleteTimeBlock (Rejected ''Network Error'') ''1'' (ex_state [] [ex_block ''1'' 9 10 True] 50)
     = (ex_state [] [ex_block ''1'' 9 10 True] 50)\<lparr>error := Some ''Network Error''\<rparr>"
  by (simp add: deleteTimeBlock_def Let_def)


section \<open>Placing and deleting again\<close>

lemma filter_other_ids:
  "distinct (map f xs) \<Longrightarrow> t \<in> set xs \<Longrightarrow> filter (\<lambda>x. f x \<noteq> f t) xs = remove1 t xs"
proof (induction xs)
  case Nil
  then show ?case by simp
next
  case (Cons x xs)
  show ?case
  proof (cases "x = t")
    case True
    with Cons.prems have "f t \<notin> f ` set xs" by simp
    then have "\<forall>y\<in>set xs. f y \<noteq> f t" by (metis imageI)
    then have "filter (\<lambda>x. f x \<noteq> f t) xs = xs" by (simp add: filter_id_conv)
    with True show ?thesis by simp
  next
    case False
    with Cons.prems have "t \<in> set xs" "f x \<noteq> f t" "distinct (map f xs)" by auto
    with Cons.IH False show ?thesis by simp
  qed
qed

lemma find_appended_fresh:
  "f nb \<notin> f ` set xs \<Longrightarrow> find (\<lambda>b. f b = f nb) (xs @ [nb]) = Some nb"
  by (induction xs) auto

lemma filter_appended_fresh:
  "i \<notin> f ` set xs \<Longrightarrow> filter (\<lambda>b. f b \<noteq> i) xs = xs"
  by (induction xs) auto

lemma pool_length_remove1: "t \<in> set xs \<Longrightarrow> length (remove1 t xs) + 1 = length xs"
  using length_pos_if_in_set [of t xs] by (simp add: length_remove1)

lemma backend_round_trip:
  assumes pooled: "t \<in> set (tasks s)" and ids: "distinct (map task_id (tasks s))"
    and valid: "en \<le> 21" "\<not> hasConflict (timeBlocks s) st en None"
    and fresh: "block_id nb \<notin> block_id ` set (timeBlocks s)"
  defines "s1 \<equiv> snd (addTimeBlock (Resolved nb) t st en s)"
  defines "s2 \<equiv> deleteTimeBlock (Resolved ()) (block_id nb) s1"
  shows "tasks s1 = remove1 t (tasks s)" "timeBlocks s1 = timeBlocks s @ [nb]"
    "timeBlocks s2 = timeBlocks s" "tasks s2 = remove1 t (tasks s) @ [task nb]"
proof -
  have s1: "s1 = s\<lparr>error := None, timeBlocks := timeBlocks s @ [nb],
                 tasks := filter (\<lambda>x. task_id x \<noteq> task_id t) (tasks s)\<rparr>"
    unfolding s1_def using valid by (simp add: addTimeBlock_created)
  show t1: "tasks s1 = remove1 t (tasks s)"
    using pooled ids by (simp add: s1 filter_other_ids)
  show b1: "timeBlocks s1 = timeBlocks s @ [nb]" by (simp add: s1)
  have "find (\<lambda>b. block_id b = block_id nb) (timeBlocks s1) = Some nb"
    unfolding b1 using fresh by (rule find_appended_fresh)
  then have s2: "s2 = s1\<lparr>error := None,
         timeBlocks := filter (\<lambda>b. block_id b \<noteq> block_id nb) (timeBlocks s1),
         tasks := tasks s1 @ [task nb],
         xp := (if completed nb then max 0 (xp s1 - 50) else xp s1)\<rparr>"
    unfolding s2_def by (rule deleteTimeBlock_resolved)
  show "timeBlocks s2 = timeBlocks s"
    using fresh by (simp add: s2 b1 filter_appended_fresh)
  show "tasks s2 = remove1 t (tasks s) @ [task nb]"
    by (simp add: s2 t1)
qed

lemma addTimeBlock_local_created:
  "en \<le> 21 \<Longrightarrow> \<not> hasConflict (timeBlocks l) st en None \<Longrightarrow>
     addTimeBlock_local newId t st en l =
       (None,
        l\<lparr>storage := Some (mockAPI_getBlocks (storage l)
                      @ [\<lparr>block_id = newId, task = t, startHour = st, endHour = en,
                           completed = False\<rparr>]),
          timeBlocks := timeBlocks l
                      @ [\<lparr>block_id = newId, task = t, startHour = st, endHour = en,
                           completed = False\<rparr>],
          tasks := filter (\<lambda>x. task_id x \<noteq> task_id t) (tasks l)\<rparr>)"
  by (simp add: addTimeBlock_local_def createTimeBlockAPI_def mockAPI_createBlock_def Let_def)

lemma deleteBlock_found:
  "find (\<lambda>b. block_id b = i) (timeBlocks l) = Some block \<Longrightarrow>
     deleteBlock i l =
       l\<lparr>storage := mockAPI_deleteBlock i (storage l),
         timeBlocks := filter (\<lambda>b. block_id b \<noteq> i) (timeBlocks l),
         tasks := tasks l @ [task block],
         xp := (if completed block then max 0 (xp l - 50) else xp l)\<rparr>"
  by (simp add: deleteBlock_def deleteTimeBlockAPI_def Let_def)

lemma local_round_trip:
  assumes pooled: "t \<in> set (tasks l)" and ids: "distinct (map task_id (tasks l))"
    and valid: "en \<le> 21" "\<not> hasConflict (timeBlocks l) st en None"
    and fresh: "newId \<notin> block_id ` set (timeBlocks l)"
  defines "nb \<equiv> \<lparr>block_id = newId, task = t, startHour = st, endHour = en, completed = False\<rparr>"
  defines "l1 \<equiv> snd (addTimeBlock_local newId t st en l)"
  defines "l2 \<equiv> deleteBlock newId l1"
  shows "tasks l1 = remove1 t (tasks l)" "timeBlocks l1 = timeBlocks l @ [nb]"
    "timeBlocks l2 = timeBlocks l" "tasks l2 = remove1 t (tasks l) @ [t]"
proof -
  have l1: "l1 = l\<lparr>storage := Some (mockAPI_getBlocks (storage l) @ [nb]),
          timeBlocks := timeBlocks l @ [nb],
          tasks := filter (\<lambda>x. task_id x \<noteq> task_id t) (tasks l)\<rparr>"
    unfolding l1_def nb_def using valid by (simp add: addTimeBlock_local_created)
  show t1: "tasks l1 = remove1 t (tasks l)"
    using pooled ids by (simp add: l1 filter_other_ids)
  show b1: "timeBlocks l1 = timeBlocks l @ [nb]" by (simp add: l1)
  have "block_id nb \<notin> block_id ` set (timeBlocks l)" using fresh by (simp add: nb_def)
  then have "find (\<lambda>b. block_id b = block_id nb) (timeBlocks l @ [nb]) = Some nb"
    by (rule find_appended_fresh)
  then have "find (\<lambda>b. block_id b = newId) (timeBlocks l1) = Some nb"
    by (simp add: b1 nb_def)
  then have l2: "l2 = l1\<lparr>storage := mockAPI_deleteBlock newId (storage l1),
         timeBlocks := filter (\<lambda>b. block_id b \<noteq> newId) (timeBlocks l1),
         tasks := tasks l1 @ [task nb],
         xp := (if completed nb then max 0 (xp l1 - 50) else xp l1)\<rparr>"
    unfolding l2_def by (rule deleteBlock_found)
  show "timeBlocks l2 = timeBlocks l"
    using fresh by (simp add: l2 b1 filter_appended_fresh nb_def)
  show "tasks l2 = remove1 t (tasks l) @ [t]"
    by (simp add: l2 t1 nb_def)
qed

text \<open>
  Claim C5, as amended. Take a task of a pool whose ids are distinct and a target that
  \<open>addTimeBlock\<close> accepts, and let the service calls succeed. In the version served by the
  backend, let the created block carry a fresh block id and the task's title, duration and
  colour. Placing removes exactly that task from the pool and appends exactly one block;
  deleting that block gives back the schedule as it was and appends one task to the pool,
  the one stored in the block, with the title, duration and colour of the original. The
  pool size plus the number of blocks is the same before, between and after. No id is made
  on deletion: the entry has the id stored in the block, and in the version backed by local
  storage the entry is the original task, id included.
\<close>

theorem place_then_delete_round_trip:
  "(t \<in> set (tasks s) \<and> distinct (map task_id (tasks s))
      \<and> en \<le> 21 \<and> \<not> hasConflict (timeBlocks s) st en None
      \<and> block_id nb \<notin> block_id ` set (timeBlocks s)
      \<and> title (task nb) = title t \<and> duration (task nb) = duration t
      \<and> color (task nb) = color t \<longrightarrow>
      (let s1 = snd (addTimeBlock (Resolved nb) t st en s);
           s2 = deleteTimeBlock (Resolved ()) (block_id nb) s1
       in tasks s1 = remove1 t (tasks s) \<and> length (tasks s1) + 1 = length (tasks s)
          \<and> timeBlocks s1 = timeBlocks s @ [nb]
          \<and> timeBlocks s2 = timeBlocks s
          \<and> tasks s2 = tasks s1 @ [task nb]
          \<and> title (last (tasks s2)) = title t \<and> duration (last (tasks s2)) = duration t
          \<and> color (last (tasks s2)) = color t
          \<and> length (tasks s1) + length (timeBlocks s1) = length (tasks s) + length (timeBlocks s)
          \<and> length (tasks s2) + length (timeBlocks s2) = length (tasks s) + length (timeBlocks s)))
   \<and> (t \<in> set (tasks l) \<and> distinct (map task_id (tasks l))
      \<and> en \<le> 21 \<and> \<not> hasConflict (timeBlocks l) st en None
      \<and> newId \<notin> block_id ` set (timeBlocks l) \<longrightarrow>
      (let l1 = snd (addTimeBlock_local newId t st en l);
           l2 = deleteBlock newId l1
       in tasks l1 = remove1 t (tasks l) \<and> length (tasks l1) + 1 = length (tasks l)
          \<and> timeBlocks l1 = timeBlocks l
               @ [\<lparr>block_id = newId, task = t, startHour = st, endHour = en, completed = False\<rparr>]
          \<and> timeBlocks l2 = timeBlocks l
          \<and> tasks l2 = tasks l1 @ [t]
          \<and> length (tasks l1) + length (timeBlocks l1) = length (tasks l) + length (timeBlocks l)
          \<and> length (tasks l2) + length (timeBlocks l2) = length (tasks l) + length (timeBlocks l)))"
proof (intro conjI impI)
  assume a: "t \<in> set (tasks s) \<and> distinct (map task_id (tasks s))
      \<and> en \<le> 21 \<and> \<not> hasConflict (timeBlocks s) st en None
      \<and> block_id nb \<notin> block_id ` set (timeBlocks s)
      \<and> title (task nb) = title t \<and> duration (task nb) = duration t
      \<and> color (task nb) = color t"
  then have h: "t \<in> set (tasks s)" "distinct (map task_id (tasks s))" "en \<le> 21"
    "\<not> hasConflict (timeBlocks s) st en None" "block_id nb \<notin> block_id ` set (timeBlocks s)"
    by simp_all
  note r = backend_round_trip[OF h]
  from h(1) have n: "length (remove1 t (tasks s)) + 1 = length (tasks s)"
    by (rule pool_length_remove1)
  from a n show "let s1 = snd (addTimeBlock (Resolved nb) t st en s);
           s2 = deleteTimeBlock (Resolved ()) (block_id nb) s1
       in tasks s1 = remove1 t (tasks s) \<and> length (tasks s1) + 1 = length (tasks s)
          \<and> timeBlocks s1 = timeBlocks s @ [nb]
          \<and> timeBlocks s2 = timeBlocks s
          \<and> tasks s2 = tasks s1 @ [task nb]
          \<and> title (last (tasks s2)) = title t \<and> duration (last (tasks s2)) = duration t
          \<and> color (last (tasks s2)) = color t
          \<and> length (tasks s1) + length (timeBlocks s1) = length (tasks s) + length (timeBlocks s)
          \<and> length (tasks s2) + length (timeBlocks s2) = length (tasks s) + length (timeBlocks s)"
    by (simp add: Let_def r)
next
  assume a: "t \<in> set (tasks l) \<and> distinct (map task_id (tasks l))
      \<and> en \<le> 21 \<and> \<not> hasConflict (timeBlocks l) st en None
      \<and> newId \<notin> block_id ` set (timeBlocks l)"
  then have h: "t \<in> set (tasks l)" "distinct (map task_id (tasks l))" "en \<le> 21"
    "\<not> hasConflict (timeBlocks l) st en None" "newId \<notin> block_id ` set (timeBlocks l)"
    by simp_all
  note r = local_round_trip[OF h]
  from h(1) have n: "length (remove1 t (tasks l)) + 1 = length (tasks l)"
    by (rule pool_length_remove1)
  from n show "let l1 = snd (addTimeBlock_local newId t st en l);
           l2 = deleteBlock newId l1
       in tasks l1 = remove1 t (tasks l) \<and> length (tasks l1) + 1 = length (tasks l)
          \<and> timeBlocks l1 = timeBlocks l
               @ [\<lparr>block_id = newId, task = t, startHour = st, endHour = en, completed = False\<rparr>]
          \<and> timeBlocks l2 = timeBlocks l
          \<and> tasks l2 = tasks l1 @ [t]
          \<and> length (tasks l1) + length (timeBlocks l1) = length (tasks l) + length (timeBlocks l)
          \<and> length (tasks l2) + length (timeBlocks l2) = length (tasks l) + length (timeBlocks l)"
    by (simp add: Let_def r)
qed

theorem place_then_delete_round_trip_witness:
  "tasks (deleteTimeBlock (Resolved ()) ''7''
      (snd (addTimeBlock
         (Resolved \<lparr>block_id = ''7'', task = ex_task\<lparr>task_id := ''41''\<rparr>, startHour = 9, endHour = 10,
                    completed = False\<rparr>)
         ex_task 9 10 (ex_state [ex_task] [] 0))))
     = [ex_task\<lparr>task_id := ''41''\<rparr>]
   \<and> timeBlocks (deleteTimeBlock (Resolved ()) ''7''
      (snd (addTimeBlock
         (Resolved \<lparr>block_id = ''7'', task = ex_task\<lparr>task_id := ''41''\<rparr>, startHour = 9, endHour = 10,
                    completed = False\<rparr>)
         ex_task 9 10 (ex_state [ex_task] [] 0))))
     = []
   \<and> timeBlocks (deleteBlock ''block-1''
        (snd (addTimeBlock_local ''block-1'' ex_task 9 10 (ex_local [ex_task] [] 0)))) = []"
  using place_then_delete_round_trip
    [of ex_task "ex_state [ex_task] [] 0" 10 9
      "\<lparr>block_id = ''7'', task = ex_task\<lparr>task_id := ''41''\<rparr>, startHour = 9, endHour = 10,
        completed = False\<rparr>" "ex_local [ex_task] [] 0" "''block-1''"]
  by (simp add: hasConflict_def Let_def)

text \<open>
  In the version backed by local storage the task that comes back has the id it had.
\<close>

theorem restored_task_keeps_id_counterexample:
  "tasks (deleteBlock ''block-1''
      (snd (addTimeBlock_local ''block-1'' ex_task 9 10 (ex_local [ex_task] [] 0)))) = [ex_task]
   \<and> task_id (last (tasks (deleteBlock ''block-1''
      (snd (addTimeBlock_local ''block-1'' ex_task 9 10 (ex_local [ex_task] [] 0))))))
     = task_id ex_task"
  by (simp add: deleteBlock_def addTimeBlock_local_def createTimeBlockAPI_def
      mockAPI_createBlock_def deleteTimeBlockAPI_def hasConflict_def Let_def)


section \<open>Completing a block\<close>

lemma completeTimeBlock_xp:
  "xp (completeTimeBlock (Resolved updatedBlock) i s) = xp s + 50"
  by (simp add: completeTimeBlock_def Let_def)

lemma completeBlock_completed_noop:
  "find (\<lambda>b. block_id b = i) (timeBlocks s) = Some block \<Longrightarrow> completed block \<Longrightarrow>
     completeBlock i s = s"
  by (simp add: completeBlock_def)

text \<open>
  Claim C6 on the two versions. \<open>completeBlock\<close> of the version backed by local storage
  returns the state as it is for a block that is already completed. \<open>completeTimeBlock\<close> of
  the version served by the backend has no such guard: with one completed block and 50
  points, a second completion that the service accepts gives 100 points.
\<close>

theorem completeTimeBlock_awards_again:
  "completed (ex_block ''1'' 9 10 True)
   \<and> completeTimeBlock (Resolved (ex_block ''1'' 9 10 True)) ''1'' (ex_state [] [ex_block ''1'' 9 10 True] 50)
     = (ex_state [] [ex_block ''1'' 9 10 True] 100)\<lparr>showPerfectDay := True\<rparr>
   \<and> completeBlock ''1'' (ex_local [] [ex_block ''1'' 9 10 True] 50)
     = ex_local [] [ex_block ''1'' 9 10 True] 50"
  by (simp add: completeTimeBlock_def completeBlock_def totalBlocks_def Let_def)


section \<open>Derived metrics\<close>

lemma filter_all_length: "length (filter P xs) = length xs \<longleftrightarrow> (\<forall>x\<in>set xs. P x)"
proof
  assume eq: "length (filter P xs) = length xs"
  show "\<forall>x\<in>set xs. P x"
  proof
    fix x assume "x \<in> set xs"
    show "P x"
    proof (rule ccontr)
      assume "\<not> P x"
      with \<open>x \<in> set xs\<close> have "length (filter P xs) < length xs"
        by (rule length_filter_less)
      with eq show False by simp
    qed
  qed
next
  assume "\<forall>x\<in>set xs. P x"
  then have "filter P xs = xs" by (simp add: filter_id_conv)
  then show "length (filter P xs) = length xs" by simp
qed

text \<open>
  Claim C7. The metrics are computed from the schedule at every rendering, so they hold in
  every state, and so after every mutation: the progress is
  \<open>completedBlocks / totalBlocks * 100\<close> when there are blocks and 0 when there are none,
  and the day is perfect exactly when there is a block and every block is completed.
\<close>

theorem derived_metrics:
  "progressPercentage tbs =
      (if totalBlocks tbs = 0 then 0
       else real (completedBlocks tbs) / real (totalBlocks tbs) * 100)
   \<and> (isPerfectDay tbs \<longleftrightarrow> totalBlocks tbs > 0 \<and> (\<forall>b\<in>set tbs. completed b))
   \<and> totalBlocks tbs = length tbs
   \<and> completedBlocks tbs = length (filter completed tbs)"
  by (simp add: progressPercentage_def isPerfectDay_def totalBlocks_def completedBlocks_def
      filter_all_length)

theorem derived_metrics_witness:
  "progressPercentage [ex_block ''1'' 9 10 True, ex_block ''2'' 10 11 True, ex_block ''3'' 11 12 False]
     = 200 / 3
   \<and> \<not> isPerfectDay [ex_block ''1'' 9 10 True, ex_block ''2'' 10 11 True, ex_block ''3'' 11 12 False]
   \<and> isPerfectDay [ex_block ''1'' 9 10 True, ex_block ''2'' 10 11 True, ex_block ''3'' 11 12 True]
   \<and> progressPercentage ([] :: TimeBlock list) = 0"
  using
    derived_metrics [of "[ex_block ''1'' 9 10 True, ex_block ''2'' 10 11 True, ex_block ''3'' 11 12 False]"]
    derived_metrics [of "[ex_block ''1'' 9 10 True, ex_block ''2'' 10 11 True, ex_block ''3'' 11 12 True]"]
    derived_metrics [of "[] :: TimeBlock list"]
  by (simp add: totalBlocks_def completedBlocks_def)

end
